theory Spec2Isabelle
  imports Main "HOL-Library.Word" "HOL-Library.Sublist" "HOL-Library.Log_Nat"
begin

section \<open>JavaScript strings\<close>

text \<open>
  A JavaScript string is a sequence of UTF-16 code units; \<open>length\<close>, \<open>startsWith\<close>,
  \<open>includes\<close> and \<open>trim\<close> all work on code units. String literals of the source are
  ASCII and are written \<open>str ''...''\<close>.
\<close>

type_synonym code_unit = "16 word"
type_synonym js_string = "code_unit list"

abbreviation (input) str :: "string \<Rightarrow> js_string" where
  "str s \<equiv> map of_char s"

text \<open>\<open>String.prototype.includes\<close>: the pattern occurs at some position.\<close>

fun js_includes :: "js_string \<Rightarrow> js_string \<Rightarrow> bool" where
  "js_includes [] p = (p = [])"
| "js_includes (c # cs) p = (prefix p (c # cs) \<or> js_includes cs p)"

section \<open>JavaScript numbers and values\<close>

text \<open>
  A Number is an IEEE 754 double: \<open>NaN\<close>, an infinity, or a finite value, which is
  modelled by the rational it denotes (every finite double is a rational). The two
  zeros are not told apart: \<open>Finite 0\<close> stands for both, which no function of this
  program can observe (both are falsy and both print as "0.00").
\<close>

datatype js_number = NaN | PosInfinity | NegInfinity | Finite rat

text \<open>The values the functions below receive as arguments: \<open>undefined\<close>, \<open>null\<close>, a
  string or a Number.\<close>

datatype js_value = Undefined | Null | Str js_string | Num js_number

subsection \<open>Rounding to a double\<close>

text \<open>
  \<open>ilog2 x\<close> is the binary exponent of a positive rational: \<open>2 powi ilog2 x \<le> x <
  2 powi (ilog2 x + 1)\<close> (lemma \<open>ilog2_bounds\<close>).
\<close>

definition ilog2 :: "rat \<Rightarrow> int" where
  "ilog2 x = (if 1 \<le> x then bitlen \<lfloor>x\<rfloor> - 1 else - bitlen (\<lceil>1 / x\<rceil> - 1))"

definition round_half_even :: "rat \<Rightarrow> int" where
  "round_half_even q =
     (let f = \<lfloor>q\<rfloor>; d = q - of_int f
      in if d < 1 / 2 then f else if 1 / 2 < d then f + 1 else if even f then f else f + 1)"

text \<open>
  The double nearest to a rational, ties to the even significand (IEEE 754
  round-to-nearest-even, the rounding of every JavaScript arithmetic operation and of
  numeric literals). A double has a 53-bit significand and a binary exponent of at least
  \<open>-1022\<close> (below it the numbers are subnormal, with the spacing \<open>2 powi -1074\<close>). The
  rounded magnitude is \<open>m * ulp\<close> with \<open>m \<le> 2 ^ 53\<close>; it is an infinity when it reaches
  \<open>2 ^ 1024\<close>, that is, when the exponent is 1024 or more, or 1023 with \<open>m = 2 ^ 53\<close>.
\<close>

definition round_to_double :: "rat \<Rightarrow> js_number" where
  "round_to_double x =
     (if x = 0 then Finite 0
      else let e = max (ilog2 \<bar>x\<bar>) (- 1022);
               ulp = 2 powi (e - 52);
               m = round_half_even (\<bar>x\<bar> / ulp)
           in if 1024 \<le> e \<or> (e = 1023 \<and> m = 2 ^ 53)
              then (if x < 0 then NegInfinity else PosInfinity)
              else Finite (sgn x * (of_int m * ulp)))"

subsection \<open>Arithmetic and comparison\<close>

text \<open>
  The operators \<open>/\<close>, \<open>*\<close>, \<open>+\<close>, \<open>-\<close> and the comparisons on Numbers. A finite result is
  the exact result rounded to a double. Division by a zero takes the zero to be \<open>+0\<close>.
\<close>

fun js_negate :: "js_number \<Rightarrow> js_number" where
  "js_negate NaN = NaN"
| "js_negate PosInfinity = NegInfinity"
| "js_negate NegInfinity = PosInfinity"
| "js_negate (Finite x) = Finite (- x)"

fun js_divide :: "js_number \<Rightarrow> js_number \<Rightarrow> js_number" where
  "js_divide (Finite x) (Finite y) =
     (if y = 0 then (if x = 0 then NaN else if 0 < x then PosInfinity else NegInfinity)
      else round_to_double (x / y))"
| "js_divide (Finite x) PosInfinity = Finite 0"
| "js_divide (Finite x) NegInfinity = Finite 0"
| "js_divide PosInfinity (Finite y) = (if y < 0 then NegInfinity else PosInfinity)"
| "js_divide NegInfinity (Finite y) = (if y < 0 then PosInfinity else NegInfinity)"
| "js_divide a b = NaN"

fun js_times :: "js_number \<Rightarrow> js_number \<Rightarrow> js_number" where
  "js_times (Finite x) (Finite y) = round_to_double (x * y)"
| "js_times NaN b = NaN"
| "js_times a NaN = NaN"
| "js_times (Finite x) b = (if x = 0 then NaN else if 0 < x then b else js_negate b)"
| "js_times a (Finite y) = (if y = 0 then NaN else if 0 < y then a else js_negate a)"
| "js_times a b = (if a = b then PosInfinity else NegInfinity)"

fun js_plus :: "js_number \<Rightarrow> js_number \<Rightarrow> js_number" where
  "js_plus (Finite x) (Finite y) = round_to_double (x + y)"
| "js_plus NaN b = NaN"
| "js_plus a NaN = NaN"
| "js_plus (Finite x) b = b"
| "js_plus a (Finite y) = a"
| "js_plus a b = (if a = b then a else NaN)"

definition js_minus :: "js_number \<Rightarrow> js_number \<Rightarrow> js_number" where
  "js_minus a b = js_plus a (js_negate b)"

fun js_less :: "js_number \<Rightarrow> js_number \<Rightarrow> bool" where
  "js_less NaN b = False"
| "js_less a NaN = False"
| "js_less (Finite x) (Finite y) = (x < y)"
| "js_less a NegInfinity = False"
| "js_less PosInfinity b = False"
| "js_less a b = True"

fun js_less_eq :: "js_number \<Rightarrow> js_number \<Rightarrow> bool" where
  "js_less_eq NaN b = False"
| "js_less_eq a NaN = False"
| "js_less_eq a b = (a = b \<or> js_less a b)"

text \<open>\<open>!v\<close>: the falsy values are \<open>undefined\<close>, \<open>null\<close>, the empty string, zero and \<open>NaN\<close>.\<close>

fun falsy :: "js_value \<Rightarrow> bool" where
  "falsy Undefined = True"
| "falsy Null = True"
| "falsy (Str s) = (s = [])"
| "falsy (Num n) = (n = NaN \<or> n = Finite 0)"

subsection \<open>\<open>parseFloat\<close>\<close>

text \<open>White space as \<open>trim\<close> and \<open>parseFloat\<close> skip it: white space and line terminators,
  all single UTF-16 code units (TAB, LF, VT, FF, CR, SPACE, NBSP, U+1680, U+2000 to
  U+200A, U+2028, U+2029, U+202F, U+205F, U+3000, U+FEFF).\<close>

definition is_whitespace :: "code_unit \<Rightarrow> bool" where
  "is_whitespace u =
     (u = 0x09 \<or> u = 0x0A \<or> u = 0x0B \<or> u = 0x0C \<or> u = 0x0D \<or> u = 0x20 \<or> u = 0xA0
      \<or> u = 0x1680 \<or> (0x2000 \<le> u \<and> u \<le> 0x200A) \<or> u = 0x2028 \<or> u = 0x2029
      \<or> u = 0x202F \<or> u = 0x205F \<or> u = 0x3000 \<or> u = 0xFEFF)"

definition is_digit :: "code_unit \<Rightarrow> bool" where
  "is_digit u = (0x30 \<le> u \<and> u \<le> 0x39)"

definition digits_value :: "js_string \<Rightarrow> int" where
  "digits_value ds = foldl (\<lambda>n u. 10 * n + (uint u - 48)) 0 ds"

text \<open>
  The value of an optional \<open>ExponentPart\<close> at the head of \<open>s\<close>: \<open>e\<close> or \<open>E\<close>, an optional
  sign and at least one digit. Where there is none the literal ends before it and the
  exponent is 0.
\<close>

definition exponent_digits :: "int \<Rightarrow> js_string \<Rightarrow> int" where
  "exponent_digits sign s =
     (let ds = takeWhile is_digit s in if ds = [] then 0 else sign * digits_value ds)"

fun exponent_part :: "js_string \<Rightarrow> int" where
  "exponent_part (e # sg # r) =
     (if e = 0x65 \<or> e = 0x45 then
        (if sg = 0x2B then exponent_digits 1 r
         else if sg = 0x2D then exponent_digits (- 1) r
         else exponent_digits 1 (sg # r))
      else 0)"
| "exponent_part s = 0"

text \<open>
  The exact value of the longest prefix of \<open>s\<close> that is a decimal literal: digits with
  an optional fraction and exponent, or a fraction with an optional exponent. \<open>None\<close>
  when no prefix is one.
\<close>

definition decimal_literal :: "js_string \<Rightarrow> rat option" where
  "decimal_literal s =
     (let ip = takeWhile is_digit s;
          r1 = dropWhile is_digit s;
          dot = (r1 \<noteq> [] \<and> hd r1 = 0x2E);
          fp = (if dot then takeWhile is_digit (tl r1) else []);
          r2 = (if dot then dropWhile is_digit (tl r1) else r1)
      in if ip = [] \<and> fp = [] then None
         else Some (of_int (digits_value (ip @ fp))
                      * 10 powi (exponent_part r2 - int (length fp))))"

text \<open>
  The longest prefix of \<open>s\<close> that is a \<open>StrUnsignedDecimalLiteral\<close> (\<open>Infinity\<close> or a
  decimal literal) as a Number: the value of a decimal literal is rounded to a double.
\<close>

definition unsigned_literal :: "js_string \<Rightarrow> js_number option" where
  "unsigned_literal s =
     (if prefix (str ''Infinity'') s then Some PosInfinity
      else map_option round_to_double (decimal_literal s))"

text \<open>\<open>parseFloat\<close> of a string: leading white space is skipped, then an optional sign
  and the longest literal; \<open>NaN\<close> when there is none. Whatever follows is ignored.\<close>

definition parseFloatString :: "js_string \<Rightarrow> js_number" where
  "parseFloatString s =
     (let t = dropWhile is_whitespace s;
          negative = (t \<noteq> [] \<and> hd t = 0x2D);
          signed = (t \<noteq> [] \<and> (hd t = 0x2D \<or> hd t = 0x2B))
      in case unsigned_literal (if signed then tl t else t) of
           None \<Rightarrow> NaN
         | Some n \<Rightarrow> (if negative then js_negate n else n))"

text \<open>
  \<open>parseFloat\<close> converts its argument to a string first. A Number prints to a string
  that reads back as the same Number; \<open>undefined\<close> and \<open>null\<close> print as words that are
  no literal.
\<close>

fun parseFloat :: "js_value \<Rightarrow> js_number" where
  "parseFloat (Str s) = parseFloatString s"
| "parseFloat (Num n) = n"
| "parseFloat Undefined = NaN"
| "parseFloat Null = NaN"

subsection \<open>\<open>Number.prototype.toFixed\<close>\<close>

text \<open>The decimal digits of a non-negative integer, most significant first.\<close>

function digits_of :: "int \<Rightarrow> js_string" where
  "digits_of n = (if n < 10 then [of_int (48 + n)] else digits_of (n div 10) @ [of_int (48 + n mod 10)])"
  by pat_completeness auto
termination
  by (relation "measure nat") auto

declare digits_of.simps [simp del]

text \<open>
  \<open>x.toFixed(f)\<close>: a non-finite \<open>x\<close> prints as its name; otherwise the sign, then the
  integer \<open>n\<close> nearest to \<open>\<bar>x\<bar> * 10 ^ f\<close> (the larger one of two) written with at least
  \<open>f + 1\<close> digits and a point before the last \<open>f\<close>. From \<open>10 ^ 21\<close> on, \<open>toFixed\<close> gives
  the Number's exponential notation instead, which is the engine's and is the
  parameter \<open>big\<close>.
\<close>

definition toFixedDigits :: "nat \<Rightarrow> rat \<Rightarrow> js_string" where
  "toFixedDigits f a =
     (let m = digits_of \<lfloor>a * 10 ^ f + 1 / 2\<rfloor>;
          padded = replicate (f + 1 - length m) 0x30 @ m
      in if f = 0 then padded
         else take (length padded - f) padded @ str ''.'' @ drop (length padded - f) padded)"

fun toFixed :: "(rat \<Rightarrow> js_string) \<Rightarrow> nat \<Rightarrow> js_number \<Rightarrow> js_string" where
  "toFixed big f NaN = str ''NaN''"
| "toFixed big f PosInfinity = str ''Infinity''"
| "toFixed big f NegInfinity = str ''-Infinity''"
| "toFixed big f (Finite x) =
     (if x < 0 then str ''-'' else []) @
     (if 10 ^ 21 \<le> \<bar>x\<bar> then big \<bar>x\<bar> else toFixedDigits f \<bar>x\<bar>)"

section \<open>Sequential settlement: \<open>executeSplit\<close> (split.js)\<close>

subsection \<open>Values a collaborator can throw\<close>

text \<open>
  JavaScript can throw (or reject a promise with) any value. The \<open>catch\<close> block of
  \<open>executeSplit\<close> only evaluates \<open>error.message?.includes(...)\<close>, so a thrown value is
  modelled by what that expression can observe:
  \<^item> \<open>Nullish\<close>: the thrown value is \<open>undefined\<close> or \<open>null\<close>; reading \<open>.message\<close> of it
    raises a \<open>TypeError\<close>;
  \<^item> \<open>Thrown NoMessage\<close>: any other value whose \<open>message\<close> is \<open>undefined\<close> or \<open>null\<close>
    (a rejected string, a number, a plain object); the optional chain yields \<open>undefined\<close>;
  \<^item> \<open>Thrown (TextMessage m)\<close>: a value whose \<open>message\<close> is the string \<open>m\<close> (an \<open>Error\<close>);
  \<^item> \<open>Thrown OtherMessage\<close>: a value whose \<open>message\<close> is neither nullish nor a string
    and has no \<open>includes\<close> method (a number, say); calling it raises a \<open>TypeError\<close>.
\<close>

datatype js_message = NoMessage | TextMessage js_string | OtherMessage

datatype thrown = Nullish | Thrown js_message

text \<open>What \<open>executeSplit\<close> itself can reject with: a \<open>TypeError\<close> raised inside its
  \<open>catch\<close> block, where nothing catches it.\<close>

datatype rejection = TypeError

text \<open>
  Lines 139-144: the category of a caught error. \<open>Inl TypeError\<close> is the exception that
  \<open>error.message?.includes\<close> raises; \<open>Inr\<close> is the value of \<open>errorMessage\<close>.
\<close>

fun errorMessageFor :: "thrown \<Rightarrow> rejection + js_string" where
  "errorMessageFor Nullish = Inl TypeError"
| "errorMessageFor (Thrown NoMessage) = Inr (str ''Payment failed'')"
| "errorMessageFor (Thrown OtherMessage) = Inl TypeError"
| "errorMessageFor (Thrown (TextMessage m)) =
     Inr (if js_includes m (str ''User declined'') then str ''Declined by user''
          else if js_includes m (str ''Insufficient balance'') then str ''Insufficient balance''
          else str ''Payment failed'')"

subsection \<open>Outcomes, events and collaborators\<close>

text \<open>The two shapes of object pushed onto \<open>results\<close> (lines 125-131 and 146-151).\<close>

datatype outcome =
    Success (recipient: js_string) (amount: js_string) (hash: js_string) (explorerUrl: js_string)
  | Failed (recipient: js_string) (amount: js_string) (error: js_string)

fun status :: "outcome \<Rightarrow> js_string" where
  "status (Success r a h u) = str ''success''"
| "status (Failed r a e) = str ''failed''"

text \<open>
  Everything the executor does to the outside world, in the order it does it: progress
  updates, the ledger calls, the construction of the unsigned payment and the wallet's
  signature request.
\<close>

datatype 'tx event =
    UpdateSplitProgress nat nat js_string
  | LoadAccount js_string
  | FetchBaseFee
  | BuildPayment js_string js_string "js_string option"
  | SignTransaction 'tx js_string
  | SubmitTransaction 'tx

text \<open>
  The collaborators (Horizon server, Stellar SDK, Freighter) are not part of the
  repository and are parameters. \<open>'w\<close> is the state of the outside world (ledger and
  wallet), which every asynchronous call may read and change; each call either returns
  (\<open>Inr\<close>) or throws (\<open>Inl\<close>). \<open>buildPayment\<close> stands for lines 88-107 (transaction builder,
  payment operation, optional memo, timeout, build) and \<open>fromXDR\<close> for line 117; they
  are pure but may throw. Every call is taken to settle: a signature request that stays
  pending for ever never resumes \<open>executeSplit\<close>, and nothing below is about such a run.
\<close>

record ('w, 'acct, 'tx) collaborators =
  loadAccount :: "js_string \<Rightarrow> 'w \<Rightarrow> (thrown + 'acct) \<times> 'w"
  fetchBaseFee :: "'w \<Rightarrow> (thrown + nat) \<times> 'w"
  buildPayment :: "'acct \<Rightarrow> nat \<Rightarrow> js_string \<Rightarrow> js_string \<Rightarrow> js_string option \<Rightarrow> thrown + 'tx"
  signTransaction :: "'tx \<Rightarrow> js_string \<Rightarrow> 'w \<Rightarrow> (thrown + js_string) \<times> 'w"
  fromXDR :: "js_string \<Rightarrow> thrown + 'tx"
  submitTransaction :: "'tx \<Rightarrow> 'w \<Rightarrow> (thrown + js_string) \<times> 'w"

subsection \<open>The body of the \<open>try\<close> block\<close>

text \<open>
  A step of the \<open>try\<close> block takes the world and gives a result or a thrown value, the
  events it caused and the new world. \<open>and_then\<close> sequences two steps: a thrown value
  skips the rest of the block.
\<close>

type_synonym ('a, 'w, 'tx) step = "'w \<Rightarrow> (thrown + 'a) \<times> 'tx event list \<times> 'w"

definition call :: "'tx event \<Rightarrow> ('w \<Rightarrow> (thrown + 'a) \<times> 'w) \<Rightarrow> ('a, 'w, 'tx) step" where
  "call ev f w = (case f w of (r, w') \<Rightarrow> (r, [ev], w'))"

definition compute :: "'tx event list \<Rightarrow> thrown + 'a \<Rightarrow> ('a, 'w, 'tx) step" where
  "compute evs r w = (r, evs, w)"

definition and_then :: "('a, 'w, 'tx) step \<Rightarrow> ('a \<Rightarrow> ('b, 'w, 'tx) step) \<Rightarrow> ('b, 'w, 'tx) step" where
  "and_then m f w =
     (case m w of
        (Inl e, t, w') \<Rightarrow> (Inl e, t, w')
      | (Inr a, t, w') \<Rightarrow> (case f a w' of (r, t', w'') \<Rightarrow> (r, t @ t', w'')))"

text \<open>
  Lines 84-122: one payment to \<open>payee\<close> (the loop variable \<open>recipient\<close>). The result is
  \<open>result.hash\<close>. The memo is attached only when it is truthy, that is, a non-empty
  string. \<open>amountPerPerson\<close> is a string, so \<open>amountPerPerson.toString()\<close> is the string
  itself.
\<close>

definition sendPayment ::
  "('w, 'acct, 'tx) collaborators \<Rightarrow> js_string \<Rightarrow> js_string \<Rightarrow> js_string \<Rightarrow> js_string
     \<Rightarrow> (js_string, 'w, 'tx) step" where
  "sendPayment c publicKey payee amountPerPerson memo =
     (let memoText = (if memo = [] then None else Some memo) in
      and_then (call (LoadAccount publicKey) (loadAccount c publicKey)) (\<lambda>sourceAccount.
      and_then (call FetchBaseFee (fetchBaseFee c)) (\<lambda>fee.
      and_then (compute [BuildPayment payee amountPerPerson memoText]
                  (buildPayment c sourceAccount fee payee amountPerPerson memoText)) (\<lambda>transaction.
      and_then (call (SignTransaction transaction publicKey)
                  (signTransaction c transaction publicKey)) (\<lambda>signedXDR.
      and_then (compute [] (fromXDR c signedXDR)) (\<lambda>signedTx.
      call (SubmitTransaction signedTx) (submitTransaction c signedTx)))))))"

subsection \<open>The loop\<close>

text \<open>
  Lines 76-158. \<open>n\<close> is \<open>participants.length\<close>, \<open>currentIndex\<close> the counter before its
  increment, \<open>results\<close> the list built so far. A success pushes an outcome and goes on;
  a caught error pushes a failed outcome and breaks; a \<open>TypeError\<close> raised while
  categorising the error leaves the function, and the results with it.
\<close>

fun splitLoop ::
  "('w, 'acct, 'tx) collaborators \<Rightarrow> js_string \<Rightarrow> js_string \<Rightarrow> js_string \<Rightarrow> nat \<Rightarrow> nat
     \<Rightarrow> js_string list \<Rightarrow> outcome list \<Rightarrow> 'w
     \<Rightarrow> (rejection + outcome list) \<times> 'tx event list \<times> 'w" where
  "splitLoop c publicKey amountPerPerson memo n currentIndex [] results w = (Inr results, [], w)"
| "splitLoop c publicKey amountPerPerson memo n currentIndex (payee # rest) results w =
     (let i = currentIndex + 1;
          started = UpdateSplitProgress i n (str ''processing'')
      in case sendPayment c publicKey payee amountPerPerson memo w of
           (Inr h, t, w1) \<Rightarrow>
             (case splitLoop c publicKey amountPerPerson memo n i rest
                     (results @ [Success payee amountPerPerson h
                        (str ''https://stellar.expert/explorer/testnet/tx/'' @ h)]) w1 of
                (r, t', w2) \<Rightarrow>
                  (r, started # t @ UpdateSplitProgress i n (str ''success'') # t', w2))
         | (Inl e, t, w1) \<Rightarrow>
             (case errorMessageFor e of
                Inl rej \<Rightarrow> (Inl rej, started # t, w1)
              | Inr errorMessage \<Rightarrow>
                  (Inr (results @ [Failed payee amountPerPerson errorMessage]),
                   started # t @ [UpdateSplitProgress i n (str ''failed'')], w1)))"

definition executeSplit ::
  "('w, 'acct, 'tx) collaborators \<Rightarrow> js_string \<Rightarrow> js_string list \<Rightarrow> js_string \<Rightarrow> js_string \<Rightarrow> 'w
     \<Rightarrow> (rejection + outcome list) \<times> 'tx event list \<times> 'w" where
  "executeSplit c publicKey participants amountPerPerson memo w =
     splitLoop c publicKey amountPerPerson memo (length participants) 0 participants [] w"

subsection \<open>A concrete wallet and ledger\<close>

text \<open>
  A small world to run the executor in: the state counts the submitted transactions
  (the payer's sequence number), a transaction is its destination, the wallet declines
  whenever the destination is \<open>decline\<close> with the error \<open>refusal\<close>, and a submission returns
  the destination as its hash.
\<close>

definition wallet :: "js_string \<Rightarrow> thrown \<Rightarrow> (nat, nat, js_string) collaborators" where
  "wallet decline refusal =
     \<lparr> loadAccount = (\<lambda>publicKey w. (Inr w, w)),
       fetchBaseFee = (\<lambda>w. (Inr 100, w)),
       buildPayment = (\<lambda>acct fee destination amt memoText. Inr destination),
       signTransaction = (\<lambda>tx publicKey w. (if tx = decline then Inl refusal else Inr tx, w)),
       fromXDR = (\<lambda>xdr. Inr xdr),
       submitTransaction = (\<lambda>tx w. (Inr tx, Suc w)) \<rparr>"

subsection \<open>Which failures the \<open>catch\<close> block can categorise\<close>

text \<open>
  \<open>message_includes e p\<close> is the value of \<open>error.message?.includes(p)\<close> as a condition,
  where it has one. \<open>catchable e\<close> says that categorising \<open>e\<close> raises nothing, and
  \<open>failures_satisfy P c\<close> that every value a collaborator of \<open>c\<close> throws satisfies \<open>P\<close>.
\<close>

definition message_includes :: "thrown \<Rightarrow> js_string \<Rightarrow> bool" where
  "message_includes e p = (case e of Thrown (TextMessage m) \<Rightarrow> js_includes m p | _ \<Rightarrow> False)"

fun catchable :: "thrown \<Rightarrow> bool" where
  "catchable Nullish = False"
| "catchable (Thrown OtherMessage) = False"
| "catchable (Thrown m) = True"

definition failures_satisfy :: "(thrown \<Rightarrow> bool) \<Rightarrow> ('w, 'acct, 'tx) collaborators \<Rightarrow> bool" where
  "failures_satisfy P c =
     ((\<forall>k w e w'. loadAccount c k w = (Inl e, w') \<longrightarrow> P e)
    \<and> (\<forall>w e w'. fetchBaseFee c w = (Inl e, w') \<longrightarrow> P e)
    \<and> (\<forall>a f d m t e. buildPayment c a f d m t = Inl e \<longrightarrow> P e)
    \<and> (\<forall>x k w e w'. signTransaction c x k w = (Inl e, w') \<longrightarrow> P e)
    \<and> (\<forall>x e. fromXDR c x = Inl e \<longrightarrow> P e)
    \<and> (\<forall>x w e w'. submitTransaction c x w = (Inl e, w') \<longrightarrow> P e))"

section \<open>Address validation: \<open>validateParticipants\<close> (split.js)\<close>

text \<open>\<open>String.prototype.trim\<close> removes white space and line terminators from both ends.\<close>

definition trim :: "js_string \<Rightarrow> js_string" where
  "trim s = rev (dropWhile is_whitespace (rev (dropWhile is_whitespace s)))"

text \<open>
  An element of \<open>errors\<close>: \<open>{ index, address, error }\<close>. The third field, \<open>error\<close> in the
  source, is called \<open>reason\<close> here (an outcome of \<open>executeSplit\<close> has an \<open>error\<close> too).
\<close>

datatype address_error =
  AddressError (index: nat) (address: js_string) (reason: js_string)

record validation =
  valid :: "js_string list"
  errors :: "address_error list"

text \<open>
  Lines 39-62, the callback of \<open>forEach\<close>, for an element that is a string.
  \<open>decodes\<close> says whether \<open>StrKey.decodeEd25519PublicKey\<close> (Stellar SDK, not part of the
  repository) returns for the address rather than throws. \<open>!trimmed\<close> holds exactly for
  the empty string.
\<close>

definition checkAddress :: "(js_string \<Rightarrow> bool) \<Rightarrow> nat \<Rightarrow> js_string \<Rightarrow> validation \<Rightarrow> validation" where
  "checkAddress decodes i a acc =
     (let trimmed = trim a in
      if trimmed = [] then
        acc\<lparr>errors := errors acc @ [AddressError i trimmed (str ''Empty address'')]\<rparr>
      else if length trimmed \<noteq> 56 then
        acc\<lparr>errors := errors acc @ [AddressError i trimmed (str ''Must be 56 characters'')]\<rparr>
      else if \<not> prefix (str ''G'') trimmed then
        acc\<lparr>errors := errors acc @ [AddressError i trimmed (str ''Must start with G'')]\<rparr>
      else if decodes trimmed then
        acc\<lparr>valid := valid acc @ [trimmed]\<rparr>
      else
        acc\<lparr>errors := errors acc @ [AddressError i trimmed (str ''Invalid Stellar address'')]\<rparr>)"

text \<open>
  \<open>addresses.forEach\<close>, from index \<open>i\<close> on. An element that is not a string has no
  \<open>trim\<close> method (or, being nullish, no properties at all): \<open>address.trim()\<close> raises a
  \<open>TypeError\<close>, which nothing catches.
\<close>

fun validateLoop ::
  "(js_string \<Rightarrow> bool) \<Rightarrow> nat \<Rightarrow> js_value list \<Rightarrow> validation \<Rightarrow> rejection + validation" where
  "validateLoop decodes i [] acc = Inr acc"
| "validateLoop decodes i (Str a # rest) acc =
     validateLoop decodes (i + 1) rest (checkAddress decodes i a acc)"
| "validateLoop decodes i (v # rest) acc = Inl TypeError"

definition validateParticipants ::
  "(js_string \<Rightarrow> bool) \<Rightarrow> js_value list \<Rightarrow> rejection + validation" where
  "validateParticipants decodes addresses =
     validateLoop decodes 0 addresses \<lparr>valid = [], errors = []\<rparr>"

text \<open>The addresses that end in \<open>valid\<close>: the trimmed string passes all four checks.\<close>

definition accepted :: "(js_string \<Rightarrow> bool) \<Rightarrow> js_string \<Rightarrow> bool" where
  "accepted decodes t = (t \<noteq> [] \<and> length t = 56 \<and> prefix (str ''G'') t \<and> decodes t)"

section \<open>Splitting the total: \<open>calculateSplit\<close> (split.js)\<close>

text \<open>The only exception of \<open>calculateSplit\<close>: \<open>new Error("Invalid split parameters")\<close>.\<close>

datatype split_error = InvalidSplitParameters

text \<open>The returned object \<open>{ total, perPerson, numParticipants }\<close>.\<close>

record split_data =
  total :: js_string
  perPerson :: js_string
  numParticipants :: js_number

text \<open>
  Line 17, the guard. \<open>totalAmount\<close> is any value (the preview handler passes the text
  of an input field); \<open>count\<close>, the parameter \<open>numParticipants\<close>, is a Number (the handler
  passes the length of a list) or is missing (\<open>None\<close>, that is \<open>undefined\<close>).
\<close>

definition invalidSplitParameters :: "js_value \<Rightarrow> js_number option \<Rightarrow> bool" where
  "invalidSplitParameters totalAmount count =
     (falsy totalAmount \<or>
      (case count of
         None \<Rightarrow> True
       | Some n \<Rightarrow> falsy (Num n) \<or> js_less_eq n (Finite 0)))"

text \<open>Line 22, the local constant \<open>perPerson\<close>: the quotient at the ledger's seven
  fractional digits.\<close>

definition perPersonStellar :: "(rat \<Rightarrow> js_string) \<Rightarrow> js_value \<Rightarrow> js_number \<Rightarrow> js_string" where
  "perPersonStellar big totalAmount n = toFixed big 7 (js_divide (parseFloat totalAmount) n)"

text \<open>Lines 16-29. The field \<open>perPerson\<close> of the result is the seven-digit string read
  back as a Number and printed with two digits.\<close>

definition calculateSplit ::
  "(rat \<Rightarrow> js_string) \<Rightarrow> js_value \<Rightarrow> js_number option \<Rightarrow> split_error + split_data" where
  "calculateSplit big totalAmount count =
     (if invalidSplitParameters totalAmount count then Inl InvalidSplitParameters
      else case count of
        None \<Rightarrow> Inl InvalidSplitParameters
      | Some n \<Rightarrow>
          Inr \<lparr> total = toFixed big 2 (parseFloat totalAmount),
                perPerson = toFixed big 2 (parseFloat (Str (perPersonStellar big totalAmount n))),
                numParticipants = n \<rparr>)"

text \<open>
  The preview handler (lines 465-502 of the main script) rejects an empty or
  non-positive total before it calls \<open>calculateSplit\<close>, and passes the field
  \<open>perPerson\<close> of the result on as the amount of every payment:
  \<open>executeSplitHandler(validation.valid, splitData.perPerson, memo)\<close>, which calls
  \<open>executeSplit(publicKey, participants, amountPerPerson, memo)\<close>.
\<close>

definition previewRejectsTotal :: "js_string \<Rightarrow> bool" where
  "previewRejectsTotal t = (falsy (Str t) \<or> js_less_eq (parseFloatString t) (Finite 0))"

definition executeSplitHandler ::
  "('w, 'acct, 'tx) collaborators \<Rightarrow> js_string \<Rightarrow> js_string list \<Rightarrow> split_data \<Rightarrow> js_string \<Rightarrow> 'w
     \<Rightarrow> (rejection + outcome list) \<times> 'tx event list \<times> 'w" where
  "executeSplitHandler c publicKey participants splitData memo w =
     executeSplit c publicKey participants (perPerson splitData) memo w"

section \<open>The balance pre-check (balance.js)\<close>

text \<open>
  An entry of \<open>account.balances\<close> as Horizon returns it, with the two fields the code
  reads. \<open>load\<close> below is \<open>server.loadAccount\<close>: it returns the account's balances or
  throws.
\<close>

record balance_line =
  asset_type :: js_string
  balance :: js_string

text \<open>The result of \<open>checkSufficientBalance\<close>.\<close>

record balance_check =
  sufficient :: bool
  available :: js_string
  required :: js_string
  shortfall :: js_string

text \<open>Line 12: the literal \<open>0.00001\<close>.\<close>

definition BASE_FEE_XLM :: js_number where
  "BASE_FEE_XLM = round_to_double (1 / 100000)"

text \<open>Lines 45-50.\<close>

definition estimateTotalCost :: "js_value \<Rightarrow> js_number \<Rightarrow> js_number" where
  "estimateTotalCost amt numPayments =
     (let paymentAmount = parseFloat amt;
          feeEstimate = js_times BASE_FEE_XLM numPayments
      in js_plus paymentAmount feeEstimate)"

text \<open>
  Lines 23-25: \<open>account.balances.find(b => b.asset_type === "native")?.balance || "0"\<close>.
  An empty balance string is falsy.
\<close>

definition nativeBalance :: "balance_line list \<Rightarrow> js_string" where
  "nativeBalance balances =
     (case find (\<lambda>b. asset_type b = str ''native'') balances of
        None \<Rightarrow> str ''0''
      | Some b \<Rightarrow> (if balance b = [] then str ''0'' else balance b))"

text \<open>Lines 17-40. The \<open>catch\<close> block logs the error and throws it again.\<close>

definition checkSufficientBalance ::
  "(rat \<Rightarrow> js_string) \<Rightarrow> (js_string \<Rightarrow> thrown + balance_line list) \<Rightarrow> js_string \<Rightarrow> js_value
     \<Rightarrow> js_number \<Rightarrow> thrown + balance_check" where
  "checkSufficientBalance big load publicKey amt numPayments =
     (case load publicKey of
        Inl e \<Rightarrow> Inl e
      | Inr balances \<Rightarrow>
          (let availableXlm = parseFloat (Str (nativeBalance balances));
               totalCost = estimateTotalCost amt numPayments
           in Inr \<lparr> sufficient = js_less_eq totalCost availableXlm,
                    available = toFixed big 2 availableXlm,
                    required = toFixed big 2 totalCost,
                    shortfall = (if js_less availableXlm totalCost
                                 then toFixed big 2 (js_minus totalCost availableXlm)
                                 else str ''0'') \<rparr>))"

text \<open>
  What the two validators do to the page: show the warning (required, available,
  shortfall, context) or hide it.
\<close>

datatype balance_ui =
    ShowBalanceWarning js_string js_string js_string js_string
  | HideBalanceWarning

text \<open>
  Lines 130-145 and 151-166: the two validators have the same body, \<open>validateBalance\<close>,
  and differ in the number of payments and the context they name. The result is the
  returned boolean and the page updates. The \<open>catch\<close> block logs the error and returns
  \<open>true\<close>.
\<close>

definition validateBalance ::
  "js_string \<Rightarrow> thrown + balance_check \<Rightarrow> bool \<times> balance_ui list" where
  "validateBalance context checked =
     (case checked of
        Inl e \<Rightarrow> (True, [])
      | Inr c \<Rightarrow>
          (if \<not> sufficient c
           then (False, [ShowBalanceWarning (required c) (available c) (shortfall c) context])
           else (True, [HideBalanceWarning])))"

definition validateBalanceForPayment ::
  "(rat \<Rightarrow> js_string) \<Rightarrow> (js_string \<Rightarrow> thrown + balance_line list) \<Rightarrow> js_string \<Rightarrow> js_value
     \<Rightarrow> bool \<times> balance_ui list" where
  "validateBalanceForPayment big load publicKey amt =
     validateBalance (str ''payment'') (checkSufficientBalance big load publicKey amt (Finite 1))"

definition validateBalanceForSplit ::
  "(rat \<Rightarrow> js_string) \<Rightarrow> (js_string \<Rightarrow> thrown + balance_line list) \<Rightarrow> js_string \<Rightarrow> js_value
     \<Rightarrow> js_number \<Rightarrow> bool \<times> balance_ui list" where
  "validateBalanceForSplit big load publicKey totalAmount count =
     validateBalance (str ''split'')
       (checkSufficientBalance big load publicKey totalAmount count)"

text \<open>A ledger that cannot be reached: every account load throws a network error.\<close>

definition unreachable :: "js_string \<Rightarrow> thrown + balance_line list" where
  "unreachable publicKey = Inl (Thrown (TextMessage (str ''Network Error'')))"

section \<open>Properties of the number model\<close>

subsection \<open>Rounding to a double\<close>

text \<open>The binary exponent brackets its argument, so the significand that
  \<open>round_to_double\<close> rounds lies between \<open>2 ^ 52\<close> and \<open>2 ^ 53\<close> for a normal number.\<close>

lemma ilog2_le:
  assumes "0 < x"
  shows "2 powi ilog2 x \<le> x"
proof (cases "1 \<le> x")
  case True
  then have n: "0 < \<lfloor>x\<rfloor>" by simp
  from bitlen_bounds[OF n] have b: "2 ^ nat (bitlen \<lfloor>x\<rfloor> - 1) \<le> \<lfloor>x\<rfloor>" by simp
  have nn: "0 \<le> bitlen \<lfloor>x\<rfloor> - 1"
    using n bitlen_nonneg[of "\<lfloor>x\<rfloor>"] bitlen_eq_zero_iff[of "\<lfloor>x\<rfloor>"] by linarith
  have "(2::rat) powi (bitlen \<lfloor>x\<rfloor> - 1) = 2 ^ nat (bitlen \<lfloor>x\<rfloor> - 1)"
    using nn by (simp add: power_int_def)
  also have "\<dots> = of_int (2 ^ nat (bitlen \<lfloor>x\<rfloor> - 1))" by simp
  also have "\<dots> \<le> of_int \<lfloor>x\<rfloor>" using b by (simp only: of_int_le_iff)
  also have "\<dots> \<le> x" by simp
  finally show ?thesis using True by (simp add: ilog2_def)
next
  case False
  with assms have x1: "x < 1" by simp
  let ?m = "\<lceil>1 / x\<rceil>"
  have "1 < 1 / x" using assms x1 by (simp add: field_simps)
  then have m2: "2 \<le> ?m" by (simp add: le_ceiling_iff)
  then have pos: "0 < ?m - 1" by simp
  let ?k = "bitlen (?m - 1)"
  from bitlen_bounds[OF pos] have "?m - 1 < 2 ^ nat ?k" by simp
  then have "?m \<le> 2 ^ nat ?k" by simp
  then have "of_int ?m \<le> (of_int (2 ^ nat ?k) :: rat)" by (simp only: of_int_le_iff)
  then have "of_int ?m \<le> (2 ^ nat ?k :: rat)" by simp
  moreover have "1 / x \<le> of_int ?m" by (rule le_of_int_ceiling)
  ultimately have le: "1 / x \<le> 2 ^ nat ?k" by (rule order_trans[rotated])
  have k0: "0 \<le> ?k" by (rule bitlen_nonneg)
  have "(2::rat) powi (- ?k) = 1 / 2 ^ nat ?k"
    using k0 by (simp add: power_int_def field_simps)
  also have "\<dots> \<le> x" using le assms by (simp add: field_simps)
  finally show ?thesis using False by (simp add: ilog2_def)
qed

lemma round_half_even_error: "\<bar>of_int (round_half_even y) - y\<bar> \<le> 1 / 2"
proof -
  have a: "of_int \<lfloor>y\<rfloor> \<le> y" and b: "y < of_int \<lfloor>y\<rfloor> + 1" by linarith+
  show ?thesis
    unfolding round_half_even_def Let_def using a b by (auto simp: abs_le_iff)
qed

lemma round_half_even_nonneg: "0 \<le> y \<Longrightarrow> 0 \<le> round_half_even y"
  unfolding round_half_even_def Let_def by auto

lemma ilog2_less_next:
  assumes "0 < x"
  shows "x < 2 powi (ilog2 x + 1)"
proof (cases "1 \<le> x")
  case True
  then have n: "0 < \<lfloor>x\<rfloor>" by simp
  from bitlen_bounds[OF n] have "\<lfloor>x\<rfloor> + 1 \<le> 2 ^ nat (bitlen \<lfloor>x\<rfloor>)" by simp
  then have "of_int (\<lfloor>x\<rfloor> + 1) \<le> (of_int (2 ^ nat (bitlen \<lfloor>x\<rfloor>)) :: rat)"
    by (simp only: of_int_le_iff)
  then have "of_int \<lfloor>x\<rfloor> + 1 \<le> (2 ^ nat (bitlen \<lfloor>x\<rfloor>) :: rat)" by simp
  moreover have "x < of_int \<lfloor>x\<rfloor> + 1" by linarith
  ultimately have "x < 2 ^ nat (bitlen \<lfloor>x\<rfloor>)" by linarith
  moreover have "(2::rat) powi bitlen \<lfloor>x\<rfloor> = 2 ^ nat (bitlen \<lfloor>x\<rfloor>)"
    using bitlen_nonneg[of "\<lfloor>x\<rfloor>"] by (simp add: power_int_def)
  ultimately show ?thesis using True by (simp add: ilog2_def)
next
  case False
  with assms have x1: "x < 1" by simp
  let ?m = "\<lceil>1 / x\<rceil>"
  have "1 < 1 / x" using assms x1 by (simp add: field_simps)
  then have m2: "2 \<le> ?m" by (simp add: le_ceiling_iff)
  then have pos: "0 < ?m - 1" by simp
  let ?k = "bitlen (?m - 1)"
  have k1: "1 \<le> ?k"
    using pos bitlen_nonneg[of "?m - 1"] bitlen_eq_zero_iff[of "?m - 1"] by linarith
  from bitlen_bounds[OF pos] have "2 ^ nat (?k - 1) \<le> ?m - 1" by simp
  then have "(of_int (2 ^ nat (?k - 1)) :: rat) \<le> of_int (?m - 1)" by (simp only: of_int_le_iff)
  then have "(2 ^ nat (?k - 1) :: rat) \<le> of_int ?m - 1" by simp
  moreover have "of_int ?m - 1 < 1 / x" by linarith
  ultimately have lt: "2 ^ nat (?k - 1) < 1 / x" by linarith
  have p: "(0::rat) < 2 ^ nat (?k - 1)" by simp
  from lt have "x * 2 ^ nat (?k - 1) < 1" using assms by (simp add: field_simps)
  then have "x < 1 / 2 ^ nat (?k - 1)" using p by (simp add: field_simps)
  moreover have "(2::rat) powi (- ?k + 1) = 1 / 2 ^ nat (?k - 1)"
  proof -
    have "- ?k + 1 = - (?k - 1)" by simp
    then have "(2::rat) powi (- ?k + 1) = inverse (2 powi (?k - 1))"
      by (simp only: power_int_minus)
    also have "(2::rat) powi (?k - 1) = 2 ^ nat (?k - 1)" using k1 by (simp add: power_int_def)
    finally show ?thesis by (simp add: field_simps)
  qed
  ultimately show ?thesis using False by (simp add: ilog2_def)
qed

lemma ilog2_bounds: "0 < x \<Longrightarrow> 2 powi ilog2 x \<le> x \<and> x < 2 powi (ilog2 x + 1)"
  using ilog2_le ilog2_less_next by blast

text \<open>
  The rounding error of a double: at most half a unit in the last place, which is a
  relative error of \<open>2 powi -53\<close> for a normal number and \<open>2 powi -1075\<close> for a subnormal
  one. Below \<open>2 ^ 1023\<close> nothing overflows.
\<close>

lemma ilog2_less:
  assumes "0 < x" and "x < 2 powi b"
  shows "ilog2 x < b"
proof (rule ccontr)
  assume "\<not> ilog2 x < b"
  then have "b \<le> ilog2 x" by simp
  then have "(2::rat) powi b \<le> 2 powi ilog2 x" by (intro power_int_increasing) simp_all
  also have "\<dots> \<le> x" by (rule ilog2_le[OF assms(1)])
  finally show False using assms(2) by simp
qed

lemma round_to_double_error:
  assumes "0 < x" and "x < 2 ^ 1023"
  shows "\<exists>d. round_to_double x = Finite d \<and> 0 \<le> d
           \<and> \<bar>d - x\<bar> \<le> x * 2 powi (- 53) + 2 powi (- 1075)"
proof -
  define e where "e = max (ilog2 x) (- 1022)"
  define u :: rat where "u = 2 powi (e - 52)"
  define m where "m = round_half_even (x / u)"
  have upos: "0 < u" by (simp add: u_def)
  have "x < 2 powi 1023" using assms(2) by simp
  from ilog2_less[OF assms(1) this] have e_le: "e \<le> 1022" by (simp add: e_def)
  have rd: "round_to_double x = Finite (of_int m * u)"
    using assms(1) e_le
    by (simp add: round_to_double_def Let_def e_def[symmetric] u_def[symmetric] m_def[symmetric])
  have "0 \<le> x / u" using assms(1) upos by simp
  then have m0: "0 \<le> m" unfolding m_def by (rule round_half_even_nonneg)
  have d0: "0 \<le> of_int m * u" using m0 upos by simp
  have "of_int m * u - x = (of_int m - x / u) * u"
    using upos by (simp add: left_diff_distrib)
  then have "\<bar>of_int m * u - x\<bar> = \<bar>of_int m - x / u\<bar> * \<bar>u\<bar>"
    by (simp only: abs_mult)
  also have "\<dots> = \<bar>of_int m - x / u\<bar> * u" using upos by simp
  also have "\<dots> \<le> 1 / 2 * u"
    using round_half_even_error[of "x / u"] upos
    by (intro mult_right_mono) (simp_all add: m_def)
  also have "1 / 2 * u = 2 powi (e - 53)"
    unfolding u_def by (simp add: power_int_diff)
  finally have err: "\<bar>of_int m * u - x\<bar> \<le> 2 powi (e - 53)" .
  have "(2::rat) powi (e - 53) \<le> x * 2 powi (- 53) + 2 powi (- 1075)"
  proof (cases "- 1022 \<le> ilog2 x")
    case True
    then have "e = ilog2 x" by (simp add: e_def)
    then have "(2::rat) powi (e - 53) = 2 powi ilog2 x * 2 powi (- 53)"
      by (simp add: power_int_diff power_int_minus field_simps)
    also have "\<dots> \<le> x * 2 powi (- 53)"
      by (intro mult_right_mono ilog2_le[OF assms(1)]) simp
    also have "\<dots> \<le> x * 2 powi (- 53) + 2 powi (- 1075)" by simp
    finally show ?thesis .
  next
    case False
    then have "e = - 1022" by (simp add: e_def)
    then have "(2::rat) powi (e - 53) = 2 powi (- 1075)" by simp
    also have "\<dots> \<le> x * 2 powi (- 53) + 2 powi (- 1075)" using assms(1) by simp
    finally show ?thesis .
  qed
  with err have "\<bar>of_int m * u - x\<bar> \<le> x * 2 powi (- 53) + 2 powi (- 1075)" by linarith
  with rd d0 show ?thesis by blast
qed

lemma round_half_up_error: "\<bar>of_int \<lfloor>y + 1 / 2\<rfloor> - y\<bar> \<le> (1 / 2 :: rat)"
proof -
  have "of_int \<lfloor>y + 1 / 2\<rfloor> \<le> y + 1 / 2" and "y + 1 / 2 < of_int \<lfloor>y + 1 / 2\<rfloor> + 1"
    by linarith+
  then show ?thesis by linarith
qed

subsection \<open>Reading back what \<open>toFixed\<close> prints\<close>

lemma is_digit_uint: "is_digit u = (48 \<le> uint u \<and> uint u \<le> 57)"
  by (simp add: is_digit_def word_le_def)

lemma uint_digit:
  assumes "0 \<le> r" and "r < 10"
  shows "uint (of_int (48 + r) :: code_unit) = 48 + r"
proof -
  have "uint (word_of_int (48 + r) :: code_unit) = take_bit 16 (48 + r)"
    by (simp only: uint_word_of_int_eq) simp
  also have "\<dots> = 48 + r" using assms by (intro take_bit_int_eq_self) simp_all
  finally show ?thesis .
qed

lemma digits_value_snoc: "digits_value (ds @ [d]) = 10 * digits_value ds + (uint d - 48)"
  by (simp add: digits_value_def)

lemma digits_of_props:
  "0 \<le> n \<Longrightarrow> digits_of n \<noteq> [] \<and> (\<forall>u\<in>set (digits_of n). is_digit u)
              \<and> digits_value (digits_of n) = n"
proof (induction n rule: digits_of.induct)
  case (1 n)
  show ?case
  proof (cases "n < 10")
    case True
    with "1.prems" have u: "uint (of_int (48 + n) :: code_unit) = 48 + n" by (intro uint_digit)
    have eq: "digits_of n = [of_int (48 + n)]"
      using True by (subst digits_of.simps) simp
    show ?thesis
      unfolding eq using u True "1.prems"
      by (simp add: is_digit_uint digits_value_def del: of_int_add)
  next
    case False
    then have "0 \<le> n div 10" by simp
    with "1.IH" False have ih: "digits_of (n div 10) \<noteq> []"
      "\<forall>u\<in>set (digits_of (n div 10)). is_digit u"
      "digits_value (digits_of (n div 10)) = n div 10" by simp_all
    have r: "0 \<le> n mod 10" "n mod 10 < 10" by simp_all
    then have u: "uint (of_int (48 + n mod 10) :: code_unit) = 48 + n mod 10" by (rule uint_digit)
    have eq: "digits_of n = digits_of (n div 10) @ [of_int (48 + n mod 10)]"
      using False by (subst digits_of.simps) simp
    show ?thesis
      unfolding eq using ih u r by (simp add: digits_value_snoc is_digit_uint del: of_int_add)
  qed
qed

lemma digits_value_zeros: "digits_value (replicate k 0x30 @ ds) = digits_value ds"
proof -
  have "foldl (\<lambda>n u. 10 * n + (uint u - 48)) 0 (replicate k (0x30 :: code_unit)) = 0"
    by (induction k) simp_all
  then show ?thesis by (simp add: digits_value_def)
qed

lemma not_digit_point: "\<not> is_digit 0x2E"
  by (simp add: is_digit_uint)

lemma decimal_literal_fixed:
  assumes ip: "ip \<noteq> []" "\<forall>u\<in>set ip. is_digit u" and fp: "\<forall>u\<in>set fp. is_digit u"
  shows "decimal_literal (ip @ 0x2E # fp)
           = Some (of_int (digits_value (ip @ fp)) * 10 powi (- int (length fp)))"
proof -
  have t1: "takeWhile is_digit (ip @ 0x2E # fp) = ip"
    using ip(2) not_digit_point by (simp add: takeWhile_append2)
  have d1: "dropWhile is_digit (ip @ 0x2E # fp) = 0x2E # fp"
    using ip(2) not_digit_point by (simp add: dropWhile_append2)
  have t2: "takeWhile is_digit fp = fp" using fp by (simp add: takeWhile_eq_all_conv)
  have d2: "dropWhile is_digit fp = []" using fp by simp
  show ?thesis
    unfolding decimal_literal_def Let_def t1 d1 using ip(1) by (simp add: t2 d2)
qed

lemma decimal_literal_toFixedDigits:
  assumes "0 \<le> a" and "0 < f"
  shows "decimal_literal (toFixedDigits f a) = Some (of_int \<lfloor>a * 10 ^ f + 1 / 2\<rfloor> / 10 ^ f)"
proof -
  define n where "n = \<lfloor>a * 10 ^ f + 1 / 2\<rfloor>"
  define padded where "padded = replicate (f + 1 - length (digits_of n)) 0x30 @ digits_of n"
  have n0: "0 \<le> n" using assms(1) by (simp add: n_def)
  note dp = digits_of_props[OF n0]
  have len: "f + 1 \<le> length padded" by (simp add: padded_def)
  have dig: "\<forall>u\<in>set padded. is_digit u"
    using dp by (auto simp: padded_def is_digit_uint)
  have val: "digits_value padded = n" using dp by (simp add: padded_def digits_value_zeros)
  let ?ip = "take (length padded - f) padded" and ?fp = "drop (length padded - f) padded"
  have ip: "?ip \<noteq> []" using len by auto
  have ipd: "\<forall>u\<in>set ?ip. is_digit u" using dig by (meson in_set_takeD)
  have fpd: "\<forall>u\<in>set ?fp. is_digit u" using dig by (meson in_set_dropD)
  have lfp: "length ?fp = f" using len by simp
  have "toFixedDigits f a = ?ip @ 0x2E # ?fp"
    unfolding toFixedDigits_def Let_def n_def[symmetric] padded_def[symmetric]
    using assms(2) by simp
  then have "decimal_literal (toFixedDigits f a)
      = Some (of_int (digits_value (?ip @ ?fp)) * 10 powi (- int (length ?fp)))"
    using decimal_literal_fixed[OF ip ipd fpd] by simp
  also have "\<dots> = Some (of_int n * 10 powi (- int f))"
    by (simp only: append_take_drop_id val lfp)
  also have "\<dots> = Some (of_int n / 10 ^ f)"
    by (simp add: power_int_minus field_simps)
  finally show ?thesis by (simp add: n_def)
qed

section \<open>Properties of the sequential settlement\<close>

subsection \<open>The loop's invariant\<close>

lemma splitLoop_results:
  "splitLoop c pk amt memo n idx ps results w = (Inr out, t, w') \<Longrightarrow>
   \<exists>new. out = results @ new \<and> length new \<le> length ps
        \<and> map recipient new = take (length new) ps
        \<and> (\<forall>x\<in>set (butlast new). status x = str ''success'')"
proof (induction ps arbitrary: idx results w t)
  case Nil
  then show ?case by simp
next
  case (Cons p ps)
  show ?case
  proof (cases "sendPayment c pk p amt memo w")
    case (fields r t1 w1)
    show ?thesis
    proof (cases r)
      case (Inl e)
      with Cons.prems fields show ?thesis
        by (auto simp: Let_def split: sum.splits)
    next
      case (Inr h)
      let ?s = "Success p amt h (str ''https://stellar.expert/explorer/testnet/tx/'' @ h)"
      from Cons.prems fields Inr obtain t2 where
        "splitLoop c pk amt memo n (idx + 1) ps (results @ [?s]) w1 = (Inr out, t2, w')"
        by (auto simp: Let_def split: prod.splits)
      from Cons.IH[OF this] obtain new where
        n: "out = (results @ [?s]) @ new" "length new \<le> length ps"
           "map recipient new = take (length new) ps"
           "\<forall>x\<in>set (butlast new). status x = str ''success''"
        by blast
      show ?thesis
        apply (rule exI[of _ "?s # new"])
        using n by (auto simp del: map_map)
    qed
  qed
qed

lemma splitLoop_failed:
  "splitLoop c pk amt memo n idx ps results w = (Inr out, t, w') \<Longrightarrow>
   x \<in> set out \<Longrightarrow> x \<notin> set results \<Longrightarrow> status x = str ''failed'' \<Longrightarrow>
   \<exists>e wst t1 w1. sendPayment c pk (recipient x) amt memo wst = (Inl e, t1, w1)
        \<and> errorMessageFor e = Inr (error x) \<and> amount x = amt"
proof (induction ps arbitrary: idx results w t)
  case Nil
  then show ?case by simp
next
  case (Cons p ps)
  show ?case
  proof (cases "sendPayment c pk p amt memo w")
    case (fields r t1 w1)
    show ?thesis
    proof (cases r)
      case (Inl e)
      with Cons.prems fields show ?thesis
        by (auto simp: Let_def split: sum.splits) blast
    next
      case (Inr h)
      let ?s = "Success p amt h (str ''https://stellar.expert/explorer/testnet/tx/'' @ h)"
      from Cons.prems fields Inr obtain t2 where
        "splitLoop c pk amt memo n (idx + 1) ps (results @ [?s]) w1 = (Inr out, t2, w')"
        by (auto simp: Let_def split: prod.splits)
      then have step: "splitLoop c pk amt memo n (idx + 1) ps (results @ [?s]) w1 = (Inr out, t2, w')" .
      have "x \<noteq> ?s" using Cons.prems(4) by auto
      then have "x \<notin> set (results @ [?s])" using Cons.prems(3) by simp
      from Cons.IH[OF step Cons.prems(2) this Cons.prems(4)] show ?thesis .
    qed
  qed
qed


lemma errorMessageFor_category:
  "errorMessageFor e = Inr msg \<Longrightarrow>
     msg = (if message_includes e (str ''User declined'') then str ''Declined by user''
            else if message_includes e (str ''Insufficient balance'') then str ''Insufficient balance''
            else str ''Payment failed'')"
  by (cases e rule: errorMessageFor.cases) (auto simp: message_includes_def)

lemmas run_defs = executeSplit_def sendPayment_def and_then_def call_def compute_def wallet_def Let_def

lemma sendPayment_failure:
  assumes "failures_satisfy P c" and "sendPayment c pk p amt memo w = (Inl e, t, w')"
  shows "P e"
proof -
  have la: "loadAccount c k w = (Inl e, w') \<Longrightarrow> P e" for k w e w'
    using assms(1) unfolding failures_satisfy_def by metis
  have fb: "fetchBaseFee c w = (Inl e, w') \<Longrightarrow> P e" for w e w'
    using assms(1) unfolding failures_satisfy_def by metis
  have bp: "buildPayment c a f d m t = Inl e \<Longrightarrow> P e" for a f d m t e
    using assms(1) unfolding failures_satisfy_def by metis
  have st: "signTransaction c x k w = (Inl e, w') \<Longrightarrow> P e" for x k w e w'
    using assms(1) unfolding failures_satisfy_def by metis
  have fx: "fromXDR c x = Inl e \<Longrightarrow> P e" for x e
    using assms(1) unfolding failures_satisfy_def by metis
  have sb: "submitTransaction c x w = (Inl e, w') \<Longrightarrow> P e" for x w e w'
    using assms(1) unfolding failures_satisfy_def by metis
  from assms(2) show ?thesis
    unfolding sendPayment_def and_then_def call_def compute_def Let_def
    by (auto split: prod.splits sum.splits if_splits dest: la fb bp st fx sb)
qed

lemma catchable_message: "catchable e \<Longrightarrow> \<exists>msg. errorMessageFor e = Inr msg"
  by (cases e rule: errorMessageFor.cases) auto

lemma splitLoop_returns:
  assumes "failures_satisfy catchable c"
  shows "\<exists>out t w'. splitLoop c pk amt memo n idx ps results w = (Inr out, t, w')"
proof (induction ps arbitrary: idx results w)
  case Nil
  then show ?case by simp
next
  case (Cons p ps)
  show ?case
  proof (cases "sendPayment c pk p amt memo w")
    case (fields r t1 w1)
    show ?thesis
    proof (cases r)
      case (Inl e)
      with fields assms have "catchable e" by (blast intro: sendPayment_failure)
      then obtain msg where "errorMessageFor e = Inr msg" using catchable_message by blast
      with fields Inl show ?thesis by (simp add: Let_def)
    next
      case (Inr h)
      from Cons.IH[of "idx + 1" "results @ [Success p amt h (str ''https://stellar.expert/explorer/testnet/tx/'' @ h)]" w1]
      obtain out t2 w2 where "splitLoop c pk amt memo n (idx + 1) ps
         (results @ [Success p amt h (str ''https://stellar.expert/explorer/testnet/tx/'' @ h)]) w1
          = (Inr out, t2, w2)" by blast
      with fields Inr show ?thesis by (simp add: Let_def)
    qed
  qed
qed

subsection \<open>Stopping at a declined signature\<close>



subsection \<open>The shape of the outcome list\<close>

text \<open>
  Claim C9. Whenever \<open>executeSplit\<close> returns a results list, the list is no longer than
  the participant list, its \<open>i\<close>-th outcome names the \<open>i\<close>-th participant, every outcome
  before the last has status "success", and an outcome with status "failed" is the last
  element.
\<close>

theorem executeSplit_prefix_aligned:
  assumes "executeSplit c publicKey participants amountPerPerson memo w = (Inr results, t, w')"
  shows "length results \<le> length participants
       \<and> (\<forall>i<length results. recipient (results ! i) = participants ! i)
       \<and> (\<forall>i. Suc i < length results \<longrightarrow> status (results ! i) = str ''success'')
       \<and> (\<forall>i<length results. status (results ! i) = str ''failed'' \<longrightarrow> Suc i = length results)"
proof -
  from assms splitLoop_results[of c publicKey amountPerPerson memo "length participants" 0 participants "[]" w results t w']
  have len: "length results \<le> length participants"
    and rec: "map recipient results = take (length results) participants"
    and suc: "\<forall>x\<in>set (butlast results). status x = str ''success''"
    by (auto simp: executeSplit_def)
  have a: "\<forall>i<length results. recipient (results ! i) = participants ! i"
  proof (intro allI impI)
    fix i assume i: "i < length results"
    then have "recipient (results ! i) = map recipient results ! i" by simp
    also have "\<dots> = participants ! i" using i by (simp add: rec)
    finally show "recipient (results ! i) = participants ! i" .
  qed
  have b: "\<forall>i. Suc i < length results \<longrightarrow> status (results ! i) = str ''success''"
  proof (intro allI impI)
    fix i assume i: "Suc i < length results"
    then have "i < length (butlast results)" by simp
    then have "butlast results ! i \<in> set (butlast results)" by (rule nth_mem)
    moreover have "butlast results ! i = results ! i"
      using i by (simp add: nth_butlast)
    ultimately show "status (results ! i) = str ''success''" using suc by auto
  qed
  have c: "\<forall>i<length results. status (results ! i) = str ''failed'' \<longrightarrow> Suc i = length results"
  proof (intro allI impI)
    fix i assume i: "i < length results" and f: "status (results ! i) = str ''failed''"
    show "Suc i = length results"
    proof (rule ccontr)
      assume "Suc i \<noteq> length results"
      with i have "Suc i < length results" by simp
      with b have "status (results ! i) = str ''success''" by blast
      with f show False by simp
    qed
  qed
  from len a b c show ?thesis by blast
qed

theorem executeSplit_prefix_aligned_witness:
  "executeSplit (wallet (str ''B'') (Thrown NoMessage)) (str ''P'') [str ''A'', str ''B'', str ''C'']
       (str ''3.33'') [] 0
     = (Inr [Success (str ''A'') (str ''3.33'') (str ''A'')
               (str ''https://stellar.expert/explorer/testnet/tx/A''),
             Failed (str ''B'') (str ''3.33'') (str ''Payment failed'')],
        [UpdateSplitProgress 1 3 (str ''processing''),
         LoadAccount (str ''P''), FetchBaseFee, BuildPayment (str ''A'') (str ''3.33'') None,
         SignTransaction (str ''A'') (str ''P''), SubmitTransaction (str ''A''),
         UpdateSplitProgress 1 3 (str ''success''),
         UpdateSplitProgress 2 3 (str ''processing''),
         LoadAccount (str ''P''), FetchBaseFee, BuildPayment (str ''B'') (str ''3.33'') None,
         SignTransaction (str ''B'') (str ''P''),
         UpdateSplitProgress 2 3 (str ''failed'')],
        1)
   \<and> length [Success (str ''A'') (str ''3.33'') (str ''A'')
               (str ''https://stellar.expert/explorer/testnet/tx/A''),
             Failed (str ''B'') (str ''3.33'') (str ''Payment failed'')]
        \<le> length [str ''A'', str ''B'', str ''C'']
   \<and> recipient ([Success (str ''A'') (str ''3.33'') (str ''A'')
               (str ''https://stellar.expert/explorer/testnet/tx/A''),
             Failed (str ''B'') (str ''3.33'') (str ''Payment failed'')] ! 1)
        = [str ''A'', str ''B'', str ''C''] ! 1
   \<and> status ([Success (str ''A'') (str ''3.33'') (str ''A'')
               (str ''https://stellar.expert/explorer/testnet/tx/A''),
             Failed (str ''B'') (str ''3.33'') (str ''Payment failed'')] ! 0) = str ''success''"
proof -
  let ?c = "wallet (str ''B'') (Thrown NoMessage)"
  let ?rs = "[Success (str ''A'') (str ''3.33'') (str ''A'')
               (str ''https://stellar.expert/explorer/testnet/tx/A''),
             Failed (str ''B'') (str ''3.33'') (str ''Payment failed'')]"
  have run: "executeSplit ?c (str ''P'') [str ''A'', str ''B'', str ''C''] (str ''3.33'') [] 0
     = (Inr ?rs,
        [UpdateSplitProgress 1 3 (str ''processing''),
         LoadAccount (str ''P''), FetchBaseFee, BuildPayment (str ''A'') (str ''3.33'') None,
         SignTransaction (str ''A'') (str ''P''), SubmitTransaction (str ''A''),
         UpdateSplitProgress 1 3 (str ''success''),
         UpdateSplitProgress 2 3 (str ''processing''),
         LoadAccount (str ''P''), FetchBaseFee, BuildPayment (str ''B'') (str ''3.33'') None,
         SignTransaction (str ''B'') (str ''P''),
         UpdateSplitProgress 2 3 (str ''failed'')],
        1)"
    by (simp add: run_defs)
  from executeSplit_prefix_aligned[OF run] run show ?thesis by simp
qed

subsection \<open>Error categories\<close>

text \<open>
  Claim C10. A failed outcome in the returned list carries one of the three strings
  "Declined by user", "Insufficient balance" and "Payment failed". It was recorded
  because the payment to its recipient threw some value \<open>e\<close>, and the string is chosen from
  the message of \<open>e\<close> alone: "Declined by user" when the message contains
  "User declined", otherwise "Insufficient balance" when it contains
  "Insufficient balance", and "Payment failed" in every other case, whatever the
  failure was (a network rejection, a bad sequence number, an expired validity window).
\<close>

theorem executeSplit_failed_error_category:
  assumes "executeSplit c publicKey participants amountPerPerson memo w = (Inr results, t, w')"
    and "x \<in> set results" and "status x = str ''failed''"
  shows "error x \<in> {str ''Declined by user'', str ''Insufficient balance'', str ''Payment failed''}
       \<and> (\<exists>e wst t1 w1.
             sendPayment c publicKey (recipient x) amountPerPerson memo wst = (Inl e, t1, w1)
           \<and> error x =
               (if message_includes e (str ''User declined'') then str ''Declined by user''
                else if message_includes e (str ''Insufficient balance'') then str ''Insufficient balance''
                else str ''Payment failed''))"
proof -
  from assms(1) have "splitLoop c publicKey amountPerPerson memo (length participants) 0 participants [] w
      = (Inr results, t, w')" by (simp add: executeSplit_def)
  from splitLoop_failed[OF this assms(2) _ assms(3)]
  obtain e wst t1 w1 where
    s: "sendPayment c publicKey (recipient x) amountPerPerson memo wst = (Inl e, t1, w1)"
    and m: "errorMessageFor e = Inr (error x)" by auto
  note cat = errorMessageFor_category[OF m]
  have "error x \<in> {str ''Declined by user'', str ''Insufficient balance'', str ''Payment failed''}"
    by (subst cat) simp
  with s cat show ?thesis by blast
qed

theorem executeSplit_failed_error_category_witness:
  "executeSplit (wallet (str ''B'') (Thrown (TextMessage (str ''tx_bad_seq'')))) (str ''P'')
       [str ''A'', str ''B'', str ''C''] (str ''3.33'') [] 0
     = (Inr [Success (str ''A'') (str ''3.33'') (str ''A'')
               (str ''https://stellar.expert/explorer/testnet/tx/A''),
             Failed (str ''B'') (str ''3.33'') (str ''Payment failed'')],
        [UpdateSplitProgress 1 3 (str ''processing''),
         LoadAccount (str ''P''), FetchBaseFee, BuildPayment (str ''A'') (str ''3.33'') None,
         SignTransaction (str ''A'') (str ''P''), SubmitTransaction (str ''A''),
         UpdateSplitProgress 1 3 (str ''success''),
         UpdateSplitProgress 2 3 (str ''processing''),
         LoadAccount (str ''P''), FetchBaseFee, BuildPayment (str ''B'') (str ''3.33'') None,
         SignTransaction (str ''B'') (str ''P''),
         UpdateSplitProgress 2 3 (str ''failed'')],
        1)
   \<and> status (Failed (str ''B'') (str ''3.33'') (str ''Payment failed'')) = str ''failed''
   \<and> error (Failed (str ''B'') (str ''3.33'') (str ''Payment failed''))
        \<in> {str ''Declined by user'', str ''Insufficient balance'', str ''Payment failed''}"
proof -
  let ?c = "wallet (str ''B'') (Thrown (TextMessage (str ''tx_bad_seq'')))"
  let ?f = "Failed (str ''B'') (str ''3.33'') (str ''Payment failed'')"
  let ?rs = "[Success (str ''A'') (str ''3.33'') (str ''A'')
               (str ''https://stellar.expert/explorer/testnet/tx/A''), ?f]"
  have run: "executeSplit ?c (str ''P'') [str ''A'', str ''B'', str ''C''] (str ''3.33'') [] 0
     = (Inr ?rs,
        [UpdateSplitProgress 1 3 (str ''processing''),
         LoadAccount (str ''P''), FetchBaseFee, BuildPayment (str ''A'') (str ''3.33'') None,
         SignTransaction (str ''A'') (str ''P''), SubmitTransaction (str ''A''),
         UpdateSplitProgress 1 3 (str ''success''),
         UpdateSplitProgress 2 3 (str ''processing''),
         LoadAccount (str ''P''), FetchBaseFee, BuildPayment (str ''B'') (str ''3.33'') None,
         SignTransaction (str ''B'') (str ''P''),
         UpdateSplitProgress 2 3 (str ''failed'')],
        1)"
    by (simp add: run_defs)
  have mem: "?f \<in> set ?rs" by simp
  have st: "status ?f = str ''failed''" by simp
  from executeSplit_failed_error_category[OF run mem st] run st show ?thesis by simp
qed

subsection \<open>Errors the \<open>catch\<close> block cannot categorise\<close>

text \<open>
  Claim C8. The \<open>catch\<close> block reads \<open>error.message\<close> without guarding \<open>error\<close> itself.
  When the wallet rejects the second signature request with \<open>undefined\<close> (or \<open>null\<close>), the
  read raises a \<open>TypeError\<close> inside the \<open>catch\<close> block: \<open>executeSplit\<close> rejects, no
  failed outcome is recorded and the outcome of the first, successful payment is lost to
  the caller.
\<close>

theorem executeSplit_rejects_when_error_is_nullish:
  "executeSplit (wallet (str ''B'') Nullish) (str ''P'') [str ''A'', str ''B'', str ''C'']
       (str ''3.33'') [] 0
     = (Inl TypeError,
        [UpdateSplitProgress 1 3 (str ''processing''),
         LoadAccount (str ''P''), FetchBaseFee, BuildPayment (str ''A'') (str ''3.33'') None,
         SignTransaction (str ''A'') (str ''P''), SubmitTransaction (str ''A''),
         UpdateSplitProgress 1 3 (str ''success''),
         UpdateSplitProgress 2 3 (str ''processing''),
         LoadAccount (str ''P''), FetchBaseFee, BuildPayment (str ''B'') (str ''3.33'') None,
         SignTransaction (str ''B'') (str ''P'')],
        1)"
  by (simp add: run_defs)

text \<open>
  When every value the collaborators throw can be categorised (it is not nullish, and its
  message is absent or a string), \<open>executeSplit\<close> returns a results list and never
  rejects.
\<close>

theorem executeSplit_returns_when_failures_catchable:
  assumes "failures_satisfy catchable c"
  shows "\<exists>results t w'.
     executeSplit c publicKey participants amountPerPerson memo w = (Inr results, t, w')"
  unfolding executeSplit_def using assms by (rule splitLoop_returns)

theorem executeSplit_returns_when_failures_catchable_witness:
  "failures_satisfy catchable (wallet (str ''B'') (Thrown NoMessage))
   \<and> (\<exists>results t w'.
        executeSplit (wallet (str ''B'') (Thrown NoMessage)) (str ''P'')
          [str ''A'', str ''B'', str ''C''] (str ''3.33'') [] 0 = (Inr results, t, w'))"
proof -
  have h: "failures_satisfy catchable (wallet (str ''B'') (Thrown NoMessage))"
    by (simp add: failures_satisfy_def wallet_def)
  from executeSplit_returns_when_failures_catchable[OF h] h show ?thesis by blast
qed

section \<open>Properties of the address validation\<close>

lemma checkAddress_valid:
  "valid (checkAddress d i a acc) = valid acc @ filter (accepted d) [trim a]"
  by (simp add: checkAddress_def accepted_def Let_def)

lemma checkAddress_errors_address:
  "map address (errors (checkAddress d i a acc))
     = map address (errors acc) @ filter (\<lambda>t. \<not> accepted d t) [trim a]"
  by (simp add: checkAddress_def accepted_def Let_def)

lemma checkAddress_errors_index:
  "map index (errors (checkAddress d i a acc))
     = map index (errors acc) @ (if accepted d (trim a) then [] else [i])"
  by (simp add: checkAddress_def accepted_def Let_def)

lemma validateLoop_strings:
  "\<exists>r. validateLoop d i (map Str ss) acc = Inr r
     \<and> valid r = valid acc @ filter (accepted d) (map trim ss)
     \<and> map address (errors r) = map address (errors acc) @ filter (\<lambda>t. \<not> accepted d t) (map trim ss)
     \<and> map index (errors r) = map index (errors acc)
          @ map fst (filter (\<lambda>(k, s). \<not> accepted d (trim s)) (zip [i..<i + length ss] ss))"
proof (induction ss arbitrary: i acc)
  case Nil
  then show ?case by simp
next
  case (Cons s ss)
  from Cons.IH[of "i + 1" "checkAddress d i s acc"] obtain r where
    r: "validateLoop d (i + 1) (map Str ss) (checkAddress d i s acc) = Inr r"
       "valid r = valid (checkAddress d i s acc) @ filter (accepted d) (map trim ss)"
       "map address (errors r) = map address (errors (checkAddress d i s acc))
           @ filter (\<lambda>t. \<not> accepted d t) (map trim ss)"
       "map index (errors r) = map index (errors (checkAddress d i s acc))
          @ map fst (filter (\<lambda>(k, s). \<not> accepted d (trim s)) (zip [i + 1..<i + 1 + length ss] ss))"
    by blast
  have "i < i + length (s # ss)" by simp
  from upt_conv_Cons[OF this]
  have upt: "[i..<i + length (s # ss)] = i # [i + 1..<i + 1 + length ss]" by simp
  show ?case
    apply (rule exI[of _ r])
    using r unfolding upt
    by (simp add: checkAddress_valid checkAddress_errors_address checkAddress_errors_index)
qed

text \<open>
  Claim C2. For every list of address strings \<open>validateParticipants\<close> returns (it raises
  nothing), and the result is a partition of the input: \<open>valid\<close> and \<open>errors\<close> together
  have as many elements as the input; \<open>valid\<close> is the list of the trimmed addresses that
  pass all checks, in input order and with their duplicates, hence a subsequence of the
  trimmed input; \<open>errors\<close> holds the other trimmed addresses, in input order, each with
  its position in the input.
\<close>

theorem validateParticipants_partition:
  "\<exists>r. validateParticipants decodes (map Str addresses) = Inr r
     \<and> length (valid r) + length (errors r) = length addresses
     \<and> valid r = filter (accepted decodes) (map trim addresses)
     \<and> subseq (valid r) (map trim addresses)
     \<and> map address (errors r) = filter (\<lambda>t. \<not> accepted decodes t) (map trim addresses)
     \<and> map index (errors r)
          = filter (\<lambda>k. \<not> accepted decodes (trim (addresses ! k))) [0..<length addresses]"
proof -
  from validateLoop_strings[of decodes 0 addresses "\<lparr>valid = [], errors = []\<rparr>"]
  obtain r where r: "validateParticipants decodes (map Str addresses) = Inr r"
    and v: "valid r = filter (accepted decodes) (map trim addresses)"
    and a: "map address (errors r) = filter (\<lambda>t. \<not> accepted decodes t) (map trim addresses)"
    and i: "map index (errors r) = map fst (filter (\<lambda>(k, s). \<not> accepted decodes (trim s))
               (zip [0..<length addresses] addresses))"
    by (auto simp: validateParticipants_def)
  have "length (errors r) = length (map address (errors r))" by simp
  also have "\<dots> = length (filter (\<lambda>t. \<not> accepted decodes t) (map trim addresses))"
    by (simp only: a)
  finally have "length (valid r) + length (errors r) = length (map trim addresses)"
    unfolding v by (simp only: sum_length_filter_compl)
  then have len: "length (valid r) + length (errors r) = length addresses" by simp
  have sub: "subseq (valid r) (map trim addresses)" unfolding v by simp
  have "map fst (filter (\<lambda>(k, s). \<not> accepted decodes (trim s)) (zip [0..<length addresses] addresses))
      = filter (\<lambda>k. \<not> accepted decodes (trim (addresses ! k))) [0..<length addresses]"
  proof -
    have z: "zip [0..<length addresses] addresses = map (\<lambda>k. (k, addresses ! k)) [0..<length addresses]"
      by (rule nth_equalityI) auto
    show ?thesis unfolding z by (simp add: filter_map comp_def)
  qed
  with i have idx: "map index (errors r)
      = filter (\<lambda>k. \<not> accepted decodes (trim (addresses ! k))) [0..<length addresses]" by simp
  from r len v sub a idx show ?thesis by blast
qed

text \<open>An element that is not a string makes \<open>address.trim()\<close> raise.\<close>

lemma validateParticipants_non_string:
  "validateParticipants decodes [Str (str ''  ''), Undefined] = Inl TypeError"
  by (simp add: validateParticipants_def)

section \<open>Properties of \<open>calculateSplit\<close>\<close>

subsection \<open>The rounding residue\<close>

text \<open>
  Claim C3, as stated, fails. For the total "1" and seven participants the returned
  \<open>perPerson\<close> is "0.14", and seven times 0.14 misses the total by 0.02. Even the
  seven-digit amount of line 22, "0.1428571", misses it by three minimum units: every
  participant's amount is rounded down by the same 0.43 units.
\<close>

theorem calculateSplit_residue_counterexample:
  "calculateSplit (\<lambda>x. []) (Str (str ''1'')) (Some (Finite 7))
     = Inr \<lparr> total = str ''1.00'', perPerson = str ''0.14'', numParticipants = Finite 7 \<rparr>
   \<and> decimal_literal (str ''0.14'') = Some (14 / 100)
   \<and> \<not> \<bar>14 / 100 * 7 - 1\<bar> \<le> (1 / 10 ^ 7 :: rat)
   \<and> perPersonStellar (\<lambda>x. []) (Str (str ''1'')) (Finite 7) = str ''0.1428571''
   \<and> decimal_literal (str ''0.1428571'') = Some (1428571 / 10000000)
   \<and> \<not> \<bar>1428571 / 10000000 * 7 - 1\<bar> \<le> (1 / 10 ^ 7 :: rat)"
proof -
  have a: "calculateSplit (\<lambda>x. []) (Str (str ''1'')) (Some (Finite 7))
     = Inr \<lparr> total = str ''1.00'', perPerson = str ''0.14'', numParticipants = Finite 7 \<rparr>"
    by code_simp
  have b: "decimal_literal (str ''0.14'') = Some (14 / 100)" by code_simp
  have c: "perPersonStellar (\<lambda>x. []) (Str (str ''1'')) (Finite 7) = str ''0.1428571''"
    by code_simp
  have d: "decimal_literal (str ''0.1428571'') = Some (1428571 / 10000000)" by code_simp
  have e: "\<not> \<bar>14 / 100 * 7 - 1\<bar> \<le> (1 / 10 ^ 7 :: rat)" by simp
  have f: "\<not> \<bar>1428571 / 10000000 * 7 - 1\<bar> \<le> (1 / 10 ^ 7 :: rat)" by simp
  from a b c d e f show ?thesis by blast
qed

text \<open>
  Claim C3, amended. Let the total read as the positive Number \<open>t\<close>, let the count be
  \<open>c > 0\<close> and the quotient at most \<open>10 ^ 20\<close>. Then the seven-digit amount that line 22
  computes is a decimal literal whose value \<open>v\<close> satisfies
  \<open>\<bar>v * c - t\<bar> \<le> c * (half a minimum unit) + (the rounding error of the division)\<close>:
  half a unit of \<open>10 ^ -7\<close> for each participant, plus the error of the double
  division, which is at most \<open>t * 2 powi -53 + c * 2 powi -1075\<close>. The statement is about
  the seven-digit amount; the field \<open>perPerson\<close> is that amount rounded again to two
  digits (claim C5).
\<close>

theorem perPersonStellar_residue:
  assumes total: "parseFloat totalAmount = Finite t" and t: "0 < t" and c: "0 < c"
    and size: "t / c \<le> 10 ^ 20"
  shows "\<exists>v. decimal_literal (perPersonStellar big totalAmount (Finite c)) = Some v
           \<and> \<bar>v * c - t\<bar> \<le> c * (1 / 2 / 10 ^ 7 + 2 powi (- 1075)) + t * 2 powi (- 53)"
proof -
  define q where "q = t / c"
  have q0: "0 < q" using t c by (simp add: q_def)
  have qle: "q \<le> 10 ^ 20" using size by (simp add: q_def)
  have "(10::rat) ^ 20 < 2 ^ 1023" by simp
  with qle have "q < 2 ^ 1023" by linarith
  from round_to_double_error[OF q0 this] obtain d where
    rd: "round_to_double q = Finite d" and d0: "0 \<le> d"
    and err: "\<bar>d - q\<bar> \<le> q * 2 powi (- 53) + 2 powi (- 1075)" by blast
  have p53: "(2::rat) powi (- 53) \<le> 1" by (simp add: power_int_minus field_simps)
  have p1075: "(2::rat) powi (- 1075) \<le> 1" by (simp add: power_int_minus field_simps)
  have "q * 2 powi (- 53) \<le> q * 1" using q0 p53 by (intro mult_left_mono) simp_all
  with err p1075 qle have "d \<le> 10 ^ 20 + 10 ^ 20 + 1" by linarith
  then have dlt: "d < 10 ^ 21" by simp
  have "js_divide (Finite t) (Finite c) = Finite d"
    using c rd by (simp add: q_def)
  then have str7: "perPersonStellar big totalAmount (Finite c) = toFixedDigits 7 d"
    using d0 dlt by (simp add: perPersonStellar_def total)
  define v where "v = of_int \<lfloor>d * 10 ^ 7 + 1 / 2\<rfloor> / (10 ^ 7 :: rat)"
  have lit: "decimal_literal (perPersonStellar big totalAmount (Finite c)) = Some v"
    unfolding str7 v_def using decimal_literal_toFixedDigits[OF d0, of 7] by simp
  have "v - d = (of_int \<lfloor>d * 10 ^ 7 + 1 / 2\<rfloor> - d * 10 ^ 7) / 10 ^ 7"
    by (simp add: v_def field_simps)
  then have "\<bar>v - d\<bar> = \<bar>of_int \<lfloor>d * 10 ^ 7 + 1 / 2\<rfloor> - d * 10 ^ 7\<bar> / 10 ^ 7"
    by (simp only: abs_divide) simp
  also have "\<dots> \<le> (1 / 2) / 10 ^ 7"
    using round_half_up_error[of "d * 10 ^ 7"] by (intro divide_right_mono) simp_all
  finally have vd: "\<bar>v - d\<bar> \<le> 1 / 2 / 10 ^ 7" .
  have tq: "t = q * c" using c by (simp add: q_def)
  have "v * c - t = (v - d) * c + (d - q) * c" by (simp add: tq algebra_simps)
  then have "\<bar>v * c - t\<bar> \<le> \<bar>(v - d) * c\<bar> + \<bar>(d - q) * c\<bar>" by (simp only: abs_triangle_ineq)
  also have "\<dots> = \<bar>v - d\<bar> * c + \<bar>d - q\<bar> * c" using c by (simp add: abs_mult)
  also have "\<dots> \<le> (1 / 2 / 10 ^ 7) * c + (q * 2 powi (- 53) + 2 powi (- 1075)) * c"
    using vd err c by (intro add_mono mult_right_mono) simp_all
  also have "\<dots> = c * (1 / 2 / 10 ^ 7 + 2 powi (- 1075)) + t * 2 powi (- 53)"
    by (simp add: tq algebra_simps)
  finally show ?thesis using lit by blast
qed

theorem perPersonStellar_residue_witness:
  "parseFloat (Str (str ''1'')) = Finite 1 \<and> (0::rat) < 1 \<and> (0::rat) < 7 \<and> (1::rat) / 7 \<le> 10 ^ 20
   \<and> (\<exists>v. decimal_literal (perPersonStellar (\<lambda>x. []) (Str (str ''1'')) (Finite 7)) = Some v
           \<and> \<bar>v * 7 - 1\<bar> \<le> 7 * (1 / 2 / 10 ^ 7 + 2 powi (- 1075)) + 1 * 2 powi (- 53))"
proof -
  have p: "parseFloat (Str (str ''1'')) = Finite 1" by code_simp
  have s: "(1::rat) / 7 \<le> 10 ^ 20" by simp
  from perPersonStellar_residue[OF p _ _ s, of "\<lambda>x. []"] p s show ?thesis by simp
qed

subsection \<open>The guard\<close>

text \<open>
  Claim C4, as stated, fails: a negative total is not rejected. For the text "-5" and
  for the Number \<open>-5\<close> with three participants \<open>calculateSplit\<close> returns a plan with the
  total "-5.00" and "-1.67" per person.
\<close>

theorem calculateSplit_rejects_negative_total_counterexample:
  "calculateSplit (\<lambda>x. []) (Str (str ''-5'')) (Some (Finite 3))
     = Inr \<lparr> total = str ''-5.00'', perPerson = str ''-1.67'', numParticipants = Finite 3 \<rparr>
   \<and> calculateSplit (\<lambda>x. []) (Num (Finite (- 5))) (Some (Finite 3))
     = Inr \<lparr> total = str ''-5.00'', perPerson = str ''-1.67'', numParticipants = Finite 3 \<rparr>
   \<and> js_less (parseFloat (Str (str ''-5''))) (Finite 0)"
  by code_simp

text \<open>
  Claim C4, amended. \<open>calculateSplit\<close> throws exactly when the total is falsy
  (\<open>undefined\<close>, \<open>null\<close>, the empty string, zero or \<open>NaN\<close>) or the count is missing, \<open>NaN\<close>,
  zero or negative. The sign of the total is not examined: the preview handler rejects
  a non-positive total before it calls \<open>calculateSplit\<close> (\<open>previewRejectsTotal\<close>).
\<close>

theorem calculateSplit_rejects_iff:
  "(calculateSplit big totalAmount count = Inl InvalidSplitParameters) =
     (falsy totalAmount \<or> count = None \<or> count = Some NaN \<or> count = Some NegInfinity
      \<or> (\<exists>c. count = Some (Finite c) \<and> c \<le> 0))"
proof (cases count)
  case None
  then show ?thesis by (simp add: calculateSplit_def invalidSplitParameters_def)
next
  case (Some n)
  then show ?thesis
    by (cases n) (auto simp: calculateSplit_def invalidSplitParameters_def)
qed

theorem calculateSplit_rejects_iff_witness:
  "calculateSplit (\<lambda>x. []) (Num (Finite 10)) (Some (Finite 0)) = Inl InvalidSplitParameters
   \<and> calculateSplit (\<lambda>x. []) Undefined (Some (Finite 3)) = Inl InvalidSplitParameters
   \<and> calculateSplit (\<lambda>x. []) (Num (Finite 10)) None = Inl InvalidSplitParameters
   \<and> calculateSplit (\<lambda>x. []) (Num (Finite 10)) (Some (Finite (- 2))) = Inl InvalidSplitParameters
   \<and> calculateSplit (\<lambda>x. []) (Str []) (Some (Finite 3)) = Inl InvalidSplitParameters
   \<and> calculateSplit (\<lambda>x. []) (Num (Finite (- 5))) (Some (Finite 3)) \<noteq> Inl InvalidSplitParameters"
  using calculateSplit_rejects_iff[of "\<lambda>x. []" "Num (Finite 10)" "Some (Finite 0)"]
        calculateSplit_rejects_iff[of "\<lambda>x. []" Undefined "Some (Finite 3)"]
        calculateSplit_rejects_iff[of "\<lambda>x. []" "Num (Finite 10)" None]
        calculateSplit_rejects_iff[of "\<lambda>x. []" "Num (Finite 10)" "Some (Finite (- 2))"]
        calculateSplit_rejects_iff[of "\<lambda>x. []" "Str []" "Some (Finite 3)"]
        calculateSplit_rejects_iff[of "\<lambda>x. []" "Num (Finite (- 5))" "Some (Finite 3)"]
  by simp

lemma previewRejectsTotal_negative: "previewRejectsTotal (str ''-5'')"
  by code_simp

subsection \<open>Precision of the returned amount\<close>

text \<open>
  Claim C5. For the total "10" and three participants the result holds the total
  "10.00" and \<open>perPerson\<close> "3.33"; the seven-digit amount "3.3333333" that line 22
  computes is in no field of the result. The execute handler passes \<open>perPerson\<close> on, so
  the payment that is built and signed is for "3.33".
\<close>

theorem calculateSplit_returns_two_digits_only:
  "calculateSplit (\<lambda>x. []) (Str (str ''10'')) (Some (Finite 3))
     = Inr \<lparr> total = str ''10.00'', perPerson = str ''3.33'', numParticipants = Finite 3 \<rparr>
   \<and> perPersonStellar (\<lambda>x. []) (Str (str ''10'')) (Finite 3) = str ''3.3333333''
   \<and> fst (snd (executeSplitHandler (wallet [] Nullish) (str ''P'') [str ''A'']
         \<lparr> total = str ''10.00'', perPerson = str ''3.33'', numParticipants = Finite 3 \<rparr> [] 0))
     = [UpdateSplitProgress 1 1 (str ''processing''),
        LoadAccount (str ''P''), FetchBaseFee, BuildPayment (str ''A'') (str ''3.33'') None,
        SignTransaction (str ''A'') (str ''P''), SubmitTransaction (str ''A''),
        UpdateSplitProgress 1 1 (str ''success'')]"
proof -
  have a: "calculateSplit (\<lambda>x. []) (Str (str ''10'')) (Some (Finite 3))
     = Inr \<lparr> total = str ''10.00'', perPerson = str ''3.33'', numParticipants = Finite 3 \<rparr>"
    by code_simp
  have b: "perPersonStellar (\<lambda>x. []) (Str (str ''10'')) (Finite 3) = str ''3.3333333''"
    by code_simp
  have c: "fst (snd (executeSplitHandler (wallet [] Nullish) (str ''P'') [str ''A'']
         \<lparr> total = str ''10.00'', perPerson = str ''3.33'', numParticipants = Finite 3 \<rparr> [] 0))
     = [UpdateSplitProgress 1 1 (str ''processing''),
        LoadAccount (str ''P''), FetchBaseFee, BuildPayment (str ''A'') (str ''3.33'') None,
        SignTransaction (str ''A'') (str ''P''), SubmitTransaction (str ''A''),
        UpdateSplitProgress 1 1 (str ''success'')]"
    by (simp add: executeSplitHandler_def executeSplit_def sendPayment_def and_then_def
          call_def compute_def wallet_def Let_def)
  from a b c show ?thesis by blast
qed

section \<open>Properties of the balance pre-check\<close>

text \<open>
  Claim C6. When the account query throws, \<open>checkSufficientBalance\<close> throws the same value
  again, and both validators, which are what the payment and the split handler call,
  catch it and return \<open>true\<close>: the payment or split goes ahead, and the page shows no
  warning.
\<close>

theorem balance_check_fails_open:
  assumes "load publicKey = Inl e"
  shows "checkSufficientBalance big load publicKey amt numPayments = Inl e
       \<and> validateBalanceForSplit big load publicKey amt numPayments = (True, [])
       \<and> validateBalanceForPayment big load publicKey amt = (True, [])"
  using assms
  by (simp add: checkSufficientBalance_def validateBalanceForSplit_def
        validateBalanceForPayment_def validateBalance_def)

theorem balance_check_fails_open_witness:
  "unreachable (str ''P'') = Inl (Thrown (TextMessage (str ''Network Error'')))
   \<and> checkSufficientBalance (\<lambda>x. []) unreachable (str ''P'') (Str (str ''10'')) (Finite 3)
        = Inl (Thrown (TextMessage (str ''Network Error'')))
   \<and> validateBalanceForSplit (\<lambda>x. []) unreachable (str ''P'') (Str (str ''10'')) (Finite 3)
        = (True, [])
   \<and> validateBalanceForPayment (\<lambda>x. []) unreachable (str ''P'') (Str (str ''10'')) = (True, [])"
proof -
  have h: "unreachable (str ''P'') = Inl (Thrown (TextMessage (str ''Network Error'')))"
    by (simp add: unreachable_def)
  from balance_check_fails_open[where load = unreachable, OF h, of "\<lambda>x. []" "Str (str ''10'')" "Finite 3"] h
  show ?thesis by simp
qed

text \<open>
  Claim C7. With a native balance of 10, an amount of 4 and three payments the check
  reports sufficient, available "10.00" and required "4.00". The cost that is compared
  is the double nearest to 4.00003, not 4.00: with a balance of 4.00002 the same
  request is insufficient although both amounts print as "4.00".
\<close>

theorem balance_check_example:
  "checkSufficientBalance big
      (\<lambda>k. Inr [\<lparr> asset_type = str ''native'', balance = str ''10.0000000'' \<rparr>])
      publicKey (Num (Finite 4)) (Finite 3)
     = Inr \<lparr> sufficient = True, available = str ''10.00'', required = str ''4.00'',
             shortfall = str ''0'' \<rparr>
   \<and> checkSufficientBalance big
      (\<lambda>k. Inr [\<lparr> asset_type = str ''native'', balance = str ''10'' \<rparr>])
      publicKey (Str (str ''4'')) (Finite 3)
     = Inr \<lparr> sufficient = True, available = str ''10.00'', required = str ''4.00'',
             shortfall = str ''0'' \<rparr>
   \<and> estimateTotalCost (Num (Finite 4)) (Finite 3) = Finite (4503633404367701 / 1125899906842624)
   \<and> checkSufficientBalance big
      (\<lambda>k. Inr [\<lparr> asset_type = str ''native'', balance = str ''4.0000200'' \<rparr>])
      publicKey (Num (Finite 4)) (Finite 3)
     = Inr \<lparr> sufficient = False, available = str ''4.00'', required = str ''4.00'',
             shortfall = str ''0.00'' \<rparr>"
  by code_simp

end
